theory Spec2Isabelle
  imports Main "HOL-Library.Word"
begin

section \<open>Data model of qtserialbluetooth.cpp\<close>

text \<open>
  The file implements libdivecomputer's custom serial operations on top of a
  \<open>QBluetoothSocket\<close>.  Addresses are natural numbers, a pointer is an optional
  address (\<open>None\<close> is \<open>NULL\<close>), \<open>unsigned int\<close> is a 32-bit word, and what a function
  returns is the C \<open>int\<close> it returns.
\<close>

type_synonym addr = nat
type_synonym ptr = "addr option"
type_synonym byte = "8 word"
type_synonym uint = "32 word"

text \<open>
  The enumerators of \<open>dc_status_t\<close> that the file names, as the integers they are.
  The values are those of libdivecomputer's \<open>common.h\<close>; the header is not part of the
  file.
\<close>

definition DC_STATUS_SUCCESS :: int where
  "DC_STATUS_SUCCESS = 0"

definition DC_STATUS_UNSUPPORTED :: int where
  "DC_STATUS_UNSUPPORTED = - 1"

definition DC_STATUS_INVALIDARGS :: int where
  "DC_STATUS_INVALIDARGS = - 2"

definition DC_STATUS_NOMEMORY :: int where
  "DC_STATUS_NOMEMORY = - 3"

definition DC_STATUS_NODEVICE :: int where
  "DC_STATUS_NODEVICE = - 4"

definition DC_STATUS_IO :: int where
  "DC_STATUS_IO = - 6"

definition DC_STATUS_PROTOCOL :: int where
  "DC_STATUS_PROTOCOL = - 8"

datatype dc_transport_t = DC_TRANSPORT_BLUETOOTH | DC_TRANSPORT_OTHER nat

text \<open>
  The enumerations \<open>QBluetoothSocket::SocketError\<close> and \<open>QBluetoothSocket::SocketState\<close>.
  Line 103 returns the enumerator \<open>UnknownSocketError\<close> as an \<open>int\<close>; in Qt 5 its value
  is that of \<open>QAbstractSocket::UnknownSocketError\<close>, which is \<open>-1\<close>.
\<close>

datatype SocketError =
    NoSocketError
  | UnknownSocketError
  | RemoteHostClosedError
  | HostNotFoundError
  | ServiceNotFoundError
  | NetworkError
  | UnsupportedProtocolError
  | OperationError

definition UnknownSocketError_value :: int where
  "UnknownSocketError_value = - 1"

datatype SocketState =
    UnconnectedState
  | ServiceLookupState
  | ConnectingState
  | ConnectedState
  | BoundState
  | ClosingState
  | ListeningState

text \<open>
  The conversion of a wider integer to \<open>int\<close>: the \<open>qint64\<close> that \<open>read\<close> and \<open>write\<close> of
  the socket return is stored in \<open>int rc\<close>, and the \<open>long timeout\<close> is passed to a
  parameter of type \<open>int\<close>.  The value wraps around modulo \<open>2^32\<close>.
\<close>

definition int_cast :: "int \<Rightarrow> int" where
  "int_cast x = sint (word_of_int x :: 32 word)"

text \<open>
  \<open>errno\<close>: the two values the source tests for, and any other value.
\<close>

datatype errno_t = EINTR | EAGAIN | EOTHER nat

text \<open>
  What one call of \<open>socket->read\<close> or \<open>socket->write\<close> does.  \<open>Delivered bs\<close>: the call
  returns \<open>length bs\<close>, has copied \<open>bs\<close> to the address it was given and leaves \<open>errno\<close>
  as it was; \<open>Accepted n\<close>: the call returns \<open>n\<close> and leaves \<open>errno\<close> as it was;
  \<open>ReadError e\<close> and \<open>WriteError e\<close>: the call returns \<open>-1\<close> and sets \<open>errno\<close> to \<open>e\<close>.
\<close>

datatype read_result = Delivered "byte list" | ReadError errno_t
datatype write_result = Accepted nat | WriteError errno_t

text \<open>
  A socket object: what \<open>state()\<close>, \<open>error()\<close> and \<open>socketDescriptor()\<close> answer, and
  the results of the transfer attempts still to come, in order.  A transfer attempt
  made when its list is empty never returns.
\<close>

record QBluetoothSocket =
  state :: SocketState
  error :: SocketError
  socketDescriptor :: int
  incoming :: "read_result list"
  outgoing :: "write_result list"

text \<open>
  The calls \<open>qt_serial_open\<close> makes on the socket, the timer and the event loop.  The
  address object of line 58 is built from \<open>devaddr\<close> by Qt's constructor, which is not
  part of the file: \<open>QBluetoothAddress s\<close> stands for the object built from the string
  \<open>s\<close>.  A transport is the socket object as a function of the calls made so far: it
  decides what the event loop delivers (connected, error, or the timer's timeout).
\<close>

datatype QBluetoothAddress = QBluetoothAddress string

datatype socket_call =
    ConnectToService QBluetoothAddress nat
  | TimerStart nat
  | LoopExec

type_synonym transport = "socket_call list \<Rightarrow> QBluetoothSocket"

text \<open>
  The calls \<open>qt_serial_read\<close> and \<open>qt_serial_write\<close> make, with their arguments.
  \<open>SocketRead off n\<close> is \<open>socket->read((char *) data + off, n)\<close> and \<open>SocketWrite off n\<close>
  is \<open>socket->write((char *) data + off, n)\<close>; \<open>ReadyReadLoopExec\<close> is the event loop
  of lines 146 to 148, which runs until the socket signals \<open>readyRead\<close>.
\<close>

datatype io_call =
    WaitForReadyRead int
  | SocketRead nat nat
  | ReadyReadLoopExec
  | WaitForBytesWritten int
  | SocketWrite nat nat

text \<open>
  \<open>struct serial_t\<close>, and the two fields of libdivecomputer's \<open>dc_serial_t\<close> that the
  file assigns (\<open>port\<close> and \<open>type\<close>).  The field \<open>context\<close> is \<open>context_ptr\<close> here and
  the field \<open>type\<close> is \<open>transport_type\<close>; the parameter \<open>size\<close> of the read and write
  functions is \<open>sz\<close>.
\<close>

record serial_t =
  context_ptr :: ptr
  socket :: ptr
  timeout :: int

record dc_serial_t =
  port :: ptr
  transport_type :: "dc_transport_t option"

text \<open>
  The heap, with the thread's \<open>errno\<close>.  The record keeps the last contents of a block
  that was released by \<open>free\<close> or \<open>delete\<close>.  Calling a method of a deleted object or
  releasing a block twice is a fault.  \<open>cells\<close> are the pointer variables of callers,
  the targets of an \<open>out\<close> parameter.  \<open>malloc\<close> hands out \<open>next_addr\<close> and fails when
  \<open>malloc_budget\<close> is used up.
\<close>

datatype 'a block = Live 'a | Released 'a

fun contents :: "'a block \<Rightarrow> 'a" where
  "contents (Live x) = x"
| "contents (Released x) = x"

record heap =
  cells :: "addr \<Rightarrow> ptr"
  serial_blocks :: "addr \<rightharpoonup> serial_t block"
  device_blocks :: "addr \<rightharpoonup> dc_serial_t block"
  socket_objs :: "addr \<rightharpoonup> QBluetoothSocket block"
  next_addr :: addr
  malloc_budget :: nat
  errno :: errno_t

datatype fault = InvalidPointer | UseAfterFree | DoubleFree | BufferOverrun

text \<open>
  The outcome of a call: it returns, it faults (undefined behaviour of the C++
  program), or it never returns (\<open>Blocked\<close>: the transport has nothing more to
  report).
\<close>

datatype 'a outcome = Return 'a | Fault fault | Blocked

definition malloc :: "heap \<Rightarrow> ptr \<times> heap" where
  "malloc h =
     (if malloc_budget h = 0 then (None, h)
      else (Some (next_addr h),
            h\<lparr>next_addr := Suc (next_addr h), malloc_budget := malloc_budget h - 1\<rparr>))"

text \<open>\<open>new QBluetoothSocket(...)\<close>: a fresh live object (the model lets \<open>new\<close> succeed).\<close>

definition new_socket :: "QBluetoothSocket \<Rightarrow> heap \<Rightarrow> addr \<times> heap" where
  "new_socket s h =
     (next_addr h,
      h\<lparr>socket_objs := (socket_objs h)(next_addr h \<mapsto> Live s),
        next_addr := Suc (next_addr h)\<rparr>)"

text \<open>
  The target of \<open>serial_t **out\<close>: a caller's pointer variable, or the \<open>port\<close> field of a
  \<open>dc_serial_t\<close> block (\<open>&serial_device->port\<close>, line 241).
\<close>

datatype loc = Cell addr | PortOf addr

fun load_ptr :: "heap \<Rightarrow> loc \<Rightarrow> ptr" where
  "load_ptr h (Cell a) = cells h a"
| "load_ptr h (PortOf a) =
     (case device_blocks h a of None \<Rightarrow> None | Some b \<Rightarrow> port (contents b))"

definition update_device :: "heap \<Rightarrow> addr \<Rightarrow> (dc_serial_t block \<Rightarrow> dc_serial_t block) \<Rightarrow> heap" where
  "update_device h a f =
     h\<lparr>device_blocks := (case device_blocks h a of None \<Rightarrow> device_blocks h
                           | Some b \<Rightarrow> (device_blocks h)(a \<mapsto> f b))\<rparr>"

fun store_ptr :: "heap \<Rightarrow> loc \<Rightarrow> ptr \<Rightarrow> heap" where
  "store_ptr h (Cell a) v = h\<lparr>cells := (cells h)(a := v)\<rparr>"
| "store_ptr h (PortOf a) v = update_device h a (map_block (\<lambda>d. d\<lparr>port := v\<rparr>))"

text \<open>\<open>free\<close> of a block: it is no longer live.\<close>

definition release :: "'a block \<Rightarrow> 'a block" where
  "release b = Released (contents b)"

section \<open>qt_serial_open\<close>

text \<open>
  Lines 57 to 81: the connection attempts and the waits.  \<open>msec = 5000\<close>; the timer is
  started with \<open>msec\<close> or \<open>3 * msec\<close> before each \<open>loop.exec()\<close>.
\<close>

definition msec :: nat where
  "msec = 5000"

definition connect_calls :: "transport \<Rightarrow> string \<Rightarrow> socket_call list" where
  "connect_calls tr devaddr =
     (let remoteDeviceAddress = QBluetoothAddress devaddr;
          c1 = [ConnectToService remoteDeviceAddress 1, TimerStart msec, LoopExec] in
      if state (tr c1) = ConnectingState then
        c1 @ [TimerStart (3 * msec), LoopExec]
      else if state (tr c1) = UnconnectedState then
        (let c2 = c1 @ [ConnectToService remoteDeviceAddress 5, TimerStart msec, LoopExec] in
         if state (tr c2) = ConnectingState then
           c2 @ [TimerStart (3 * msec), LoopExec]
         else c2)
      else c1)"

text \<open>
  Lines 90 to 104: the \<open>switch\<close> on the socket's last error.  The case for
  \<open>OperationError\<close> is compiled only when \<open>QT_VERSION >= 0x050400\<close> (328704).
\<close>

definition error_status :: "nat \<Rightarrow> SocketError \<Rightarrow> int" where
  "error_status qt_version err =
     (case err of
        HostNotFoundError \<Rightarrow> DC_STATUS_NODEVICE
      | ServiceNotFoundError \<Rightarrow> DC_STATUS_NODEVICE
      | UnsupportedProtocolError \<Rightarrow> DC_STATUS_PROTOCOL
      | OperationError \<Rightarrow>
          (if 328704 \<le> qt_version then DC_STATUS_UNSUPPORTED
           else UnknownSocketError_value)
      | NetworkError \<Rightarrow> DC_STATUS_IO
      | _ \<Rightarrow> UnknownSocketError_value)"

text \<open>
  The whole function.  It gives the outcome (the status returned and the heap) and
  the calls it made on the socket.  On success the block's address is stored through
  \<open>out\<close>.  When the connection is not established, line 84 frees \<open>serial_port\<close> and
  lines 87 and 88 then read \<open>serial_port->socket\<close> from the freed block, which is
  undefined behaviour.  The parameter \<open>stale\<close> says what that read finds: \<open>False\<close>,
  the block no longer holds the socket pointer and the call faults; \<open>True\<close>, the block
  still holds it, and the call goes on to the \<open>switch\<close>.  The socket object is not
  deleted on this path.
\<close>

definition qt_serial_open ::
  "bool \<Rightarrow> transport \<Rightarrow> nat \<Rightarrow> heap \<Rightarrow> loc option \<Rightarrow> ptr \<Rightarrow> string
     \<Rightarrow> (int \<times> heap) outcome \<times> socket_call list" where
  "qt_serial_open stale tr qt_version h out ctx devaddr =
     (case out of
        None \<Rightarrow> (Return (DC_STATUS_INVALIDARGS, h), [])
      | Some l \<Rightarrow>
          (case malloc h of
             (None, h1) \<Rightarrow> (Return (DC_STATUS_NOMEMORY, h1), [])
           | (Some p, h1) \<Rightarrow>
               (let (q, h2) = new_socket (tr []) h1;
                    serial_port = \<lparr>context_ptr = ctx, socket = Some q, timeout = - 1\<rparr>;
                    calls = connect_calls tr devaddr;
                    sock = tr calls;
                    h3 = h2\<lparr>socket_objs := (socket_objs h2)(q \<mapsto> Live sock)\<rparr>
                in
                  if socketDescriptor sock = - 1 \<or> state sock \<noteq> ConnectedState then
                    (if stale then
                       Return (error_status qt_version (error sock),
                         h3\<lparr>serial_blocks := (serial_blocks h3)(p \<mapsto> Released serial_port)\<rparr>)
                     else Fault UseAfterFree,
                     calls)
                  else
                    (Return (DC_STATUS_SUCCESS,
                       store_ptr
                         (h3\<lparr>serial_blocks := (serial_blocks h3)(p \<mapsto> Live serial_port)\<rparr>)
                         l (Some p)),
                     calls))))"

section \<open>dc_serial_qt_open\<close>

text \<open>
  Lines 225 to 253.  \<open>dc_serial_init\<close> is declared \<open>extern\<close>, so the contents of the
  new block after that call are the parameter \<open>initialised\<close>.  The inner call gets
  \<open>&serial_device->port\<close> as its \<open>out\<close>; the cast of its result to \<open>dc_status_t\<close> keeps
  the integer.
\<close>

definition dc_serial_qt_open ::
  "dc_serial_t \<Rightarrow> bool \<Rightarrow> transport \<Rightarrow> nat \<Rightarrow> heap \<Rightarrow> addr option \<Rightarrow> ptr \<Rightarrow> string
     \<Rightarrow> (int \<times> heap) outcome \<times> socket_call list" where
  "dc_serial_qt_open initialised stale tr qt_version h out ctx devaddr =
     (case out of
        None \<Rightarrow> (Return (DC_STATUS_INVALIDARGS, h), [])
      | Some c \<Rightarrow>
          (case malloc h of
             (None, h1) \<Rightarrow> (Return (DC_STATUS_NOMEMORY, h1), [])
           | (Some d, h1) \<Rightarrow>
               (let h2 = h1\<lparr>device_blocks := (device_blocks h1)(d \<mapsto> Live initialised)\<rparr>;
                    (res, calls) =
                      qt_serial_open stale tr qt_version h2 (Some (PortOf d)) ctx devaddr
                in
                  case res of
                    Fault f \<Rightarrow> (Fault f, calls)
                  | Blocked \<Rightarrow> (Blocked, calls)
                  | Return (rc, h3) \<Rightarrow>
                      if rc \<noteq> DC_STATUS_SUCCESS then
                        (Return (rc, update_device h3 d release), calls)
                      else
                        (Return (DC_STATUS_SUCCESS,
                           store_ptr
                             (update_device h3 d
                                (map_block
                                   (\<lambda>x. x\<lparr>transport_type := Some DC_TRANSPORT_BLUETOOTH\<rparr>)))
                             (Cell c) (Some d)),
                         calls))))"

section \<open>Operations on a handle\<close>

text \<open>
  What a method call on the socket at address \<open>q\<close> finds: the live object, or a
  fault when the object was deleted or never existed.
\<close>

definition socket_view :: "heap \<Rightarrow> addr \<Rightarrow> fault + QBluetoothSocket" where
  "socket_view h q =
     (case socket_objs h q of
        None \<Rightarrow> Inl InvalidPointer
      | Some (Released s) \<Rightarrow> Inl UseAfterFree
      | Some (Live s) \<Rightarrow> Inr s)"

subsection \<open>qt_serial_close\<close>

datatype mem_call = SocketClose addr | Delete addr | Free addr

text \<open>
  Lines 112 to 123.  The guard reads \<open>device->socket\<close>; then \<open>close()\<close> is called on
  the socket, the socket is deleted and the block is freed.  The function returns the
  status, the heap and the calls made.
\<close>

definition qt_serial_close :: "heap \<Rightarrow> ptr \<Rightarrow> (int \<times> heap \<times> mem_call list) outcome" where
  "qt_serial_close h device =
     (case device of
        None \<Rightarrow> Return (DC_STATUS_SUCCESS, h, [])
      | Some a \<Rightarrow>
          (case serial_blocks h a of
             None \<Rightarrow> Fault InvalidPointer
           | Some b \<Rightarrow>
               (case socket (contents b) of
                  None \<Rightarrow> Return (DC_STATUS_SUCCESS, h, [])
                | Some q \<Rightarrow>
                    (case socket_view h q of
                       Inl f \<Rightarrow> Fault f
                     | Inr s \<Rightarrow>
                         (case b of
                            Released d \<Rightarrow> Fault DoubleFree
                          | Live d \<Rightarrow>
                              Return (DC_STATUS_SUCCESS,
                                h\<lparr>socket_objs := (socket_objs h)(q \<mapsto> Released s),
                                  serial_blocks := (serial_blocks h)(a \<mapsto> Released d)\<rparr>,
                                [SocketClose q, Delete q, Free a]))))))"

subsection \<open>qt_serial_read\<close>

text \<open>
  Lines 133 to 154: the loop.  \<open>sock\<close> is what a method call on the socket finds: a
  fault, or the results of the coming \<open>read\<close> calls.  \<open>data\<close> is the caller's array;
  a delivery that does not fit into it is a fault.  \<open>rc\<close> is the count converted to
  \<open>int\<close>: a delivery of \<open>2^31\<close> bytes or more can make it negative, and the test of
  \<open>errno\<close> then finds the value an earlier call left.  \<open>en\<close> is \<open>errno\<close>.  The loop
  returns the value, the array, \<open>errno\<close>, the results not consumed and the calls made.
\<close>

function (sequential) read_loop ::
  "int \<Rightarrow> uint \<Rightarrow> uint \<Rightarrow> byte list \<Rightarrow> errno_t \<Rightarrow> fault + read_result list \<Rightarrow> io_call list
     \<Rightarrow> (int \<times> byte list \<times> errno_t \<times> read_result list \<times> io_call list) outcome" where
  "read_loop t sz nbytes data en (Inl f) log =
     (if nbytes < sz then Fault f
      else Return (sint nbytes, data, en, [], log))"
| "read_loop t sz nbytes data en (Inr []) log =
     (if nbytes < sz then Blocked
      else Return (sint nbytes, data, en, [], log))"
| "read_loop t sz nbytes data en (Inr (r # rest)) log =
     (if nbytes < sz then
        (let log1 = log @ [WaitForReadyRead (int_cast t),
                           SocketRead (unat nbytes) (unat (sz - nbytes))]
         in case r of
              ReadError e \<Rightarrow>
                if e = EINTR \<or> e = EAGAIN then read_loop t sz nbytes data e (Inr rest) log1
                else Return (- 1, data, e, rest, log1)
            | Delivered bs \<Rightarrow>
                if length data < unat nbytes + length bs then Fault BufferOverrun
                else
                  (let data1 = take (unat nbytes) data @ bs @ drop (unat nbytes + length bs) data;
                       rc = int_cast (int (length bs))
                   in if rc < 0 then
                        (if en = EINTR \<or> en = EAGAIN then
                           read_loop t sz nbytes data1 en (Inr rest) log1
                         else Return (- 1, data1, en, rest, log1))
                      else
                        read_loop t sz (nbytes + word_of_int rc) data1 en (Inr rest)
                          (if rc = 0 then log1 @ [ReadyReadLoopExec] else log1)))
      else Return (sint nbytes, data, en, r # rest, log))"
  by pat_completeness auto

termination read_loop
  by (relation "measure (\<lambda>(t, sz, nbytes, data, en, sock, log).
         case sock of Inl f \<Rightarrow> 0 | Inr rs \<Rightarrow> length rs)") auto

definition set_incoming :: "heap \<Rightarrow> addr \<Rightarrow> read_result list \<Rightarrow> heap" where
  "set_incoming h q rest =
     (case socket_objs h q of
        Some (Live s) \<Rightarrow> h\<lparr>socket_objs := (socket_objs h)(q \<mapsto> Live (s\<lparr>incoming := rest\<rparr>))\<rparr>
      | _ \<Rightarrow> h)"

definition qt_serial_read ::
  "heap \<Rightarrow> ptr \<Rightarrow> byte list \<Rightarrow> uint \<Rightarrow> (int \<times> byte list \<times> heap \<times> io_call list) outcome" where
  "qt_serial_read h device data sz =
     (case device of
        None \<Rightarrow> Return (DC_STATUS_INVALIDARGS, data, h, [])
      | Some a \<Rightarrow>
          (case serial_blocks h a of
             None \<Rightarrow> Fault InvalidPointer
           | Some b \<Rightarrow>
               (case socket (contents b) of
                  None \<Rightarrow> Return (DC_STATUS_INVALIDARGS, data, h, [])
                | Some q \<Rightarrow>
                    (case read_loop (timeout (contents b)) sz 0 data (errno h)
                            (map_sum id incoming (socket_view h q)) [] of
                       Return (r, data', en, rest, log) \<Rightarrow>
                         Return (r, data', (set_incoming h q rest)\<lparr>errno := en\<rparr>, log)
                     | Fault f \<Rightarrow> Fault f
                     | Blocked \<Rightarrow> Blocked))))"

subsection \<open>qt_serial_write\<close>

text \<open>
  Lines 165 to 183: the loop, with \<open>break\<close> on a transfer of zero bytes.  The bytes of
  \<open>data\<close> do not influence the function; each attempt is recorded with its offset into
  \<open>data\<close> and its length.
\<close>

function (sequential) write_loop ::
  "int \<Rightarrow> uint \<Rightarrow> uint \<Rightarrow> errno_t \<Rightarrow> fault + write_result list \<Rightarrow> io_call list
     \<Rightarrow> (int \<times> errno_t \<times> write_result list \<times> io_call list) outcome" where
  "write_loop t sz nbytes en (Inl f) log =
     (if nbytes < sz then Fault f
      else Return (sint nbytes, en, [], log))"
| "write_loop t sz nbytes en (Inr []) log =
     (if nbytes < sz then Blocked
      else Return (sint nbytes, en, [], log))"
| "write_loop t sz nbytes en (Inr (r # rest)) log =
     (if nbytes < sz then
        (let log1 = log @ [WaitForBytesWritten (int_cast t),
                           SocketWrite (unat nbytes) (unat (sz - nbytes))]
         in case r of
              WriteError e \<Rightarrow>
                if e = EINTR \<or> e = EAGAIN then write_loop t sz nbytes e (Inr rest) log1
                else Return (- 1, e, rest, log1)
            | Accepted n \<Rightarrow>
                (let rc = int_cast (int n)
                 in if rc < 0 then
                      (if en = EINTR \<or> en = EAGAIN then
                         write_loop t sz nbytes en (Inr rest) log1
                       else Return (- 1, en, rest, log1))
                    else if rc = 0 then Return (sint nbytes, en, rest, log1)
                    else write_loop t sz (nbytes + word_of_int rc) en (Inr rest) log1))
      else Return (sint nbytes, en, r # rest, log))"
  by pat_completeness auto

termination write_loop
  by (relation "measure (\<lambda>(t, sz, nbytes, en, sock, log).
         case sock of Inl f \<Rightarrow> 0 | Inr rs \<Rightarrow> length rs)") auto

definition set_outgoing :: "heap \<Rightarrow> addr \<Rightarrow> write_result list \<Rightarrow> heap" where
  "set_outgoing h q rest =
     (case socket_objs h q of
        Some (Live s) \<Rightarrow> h\<lparr>socket_objs := (socket_objs h)(q \<mapsto> Live (s\<lparr>outgoing := rest\<rparr>))\<rparr>
      | _ \<Rightarrow> h)"

definition qt_serial_write ::
  "heap \<Rightarrow> ptr \<Rightarrow> byte list \<Rightarrow> uint \<Rightarrow> (int \<times> heap \<times> io_call list) outcome" where
  "qt_serial_write h device data sz =
     (case device of
        None \<Rightarrow> Return (DC_STATUS_INVALIDARGS, h, [])
      | Some a \<Rightarrow>
          (case serial_blocks h a of
             None \<Rightarrow> Fault InvalidPointer
           | Some b \<Rightarrow>
               (case socket (contents b) of
                  None \<Rightarrow> Return (DC_STATUS_INVALIDARGS, h, [])
                | Some q \<Rightarrow>
                    (case write_loop (timeout (contents b)) sz 0 (errno h)
                            (map_sum id outgoing (socket_view h q)) [] of
                       Return (r, en, rest, log) \<Rightarrow>
                         Return (r, (set_outgoing h q rest)\<lparr>errno := en\<rparr>, log)
                     | Fault f \<Rightarrow> Fault f
                     | Blocked \<Rightarrow> Blocked))))"

subsection \<open>qt_serial_flush\<close>

text \<open>Lines 186 to 194: the guard, then nothing.\<close>

definition qt_serial_flush :: "heap \<Rightarrow> ptr \<Rightarrow> int \<Rightarrow> int outcome" where
  "qt_serial_flush h device queue =
     (case device of
        None \<Rightarrow> Return DC_STATUS_INVALIDARGS
      | Some a \<Rightarrow>
          (case serial_blocks h a of
             None \<Rightarrow> Fault InvalidPointer
           | Some b \<Rightarrow>
               (case socket (contents b) of
                  None \<Rightarrow> Return DC_STATUS_INVALIDARGS
                | Some q \<Rightarrow> Return DC_STATUS_SUCCESS)))"

section \<open>Describing what a transport reports\<close>

text \<open>
  \<open>transient_errors rs\<close>: every failure among the results has \<open>errno\<close> \<open>EINTR\<close> or
  \<open>EAGAIN\<close>.  \<open>read_progress rs\<close>: moreover every delivery is of fewer than \<open>2^31\<close>
  bytes, so that its count is the \<open>rc\<close> of the loop.  \<open>delivered\<close> is the bytes of the
  deliveries, in order, and \<open>errno_after\<close> is \<open>errno\<close> after the results.
\<close>

fun transient_errors :: "read_result list \<Rightarrow> bool" where
  "transient_errors [] = True"
| "transient_errors (Delivered bs # rs) = transient_errors rs"
| "transient_errors (ReadError e # rs) = ((e = EINTR \<or> e = EAGAIN) \<and> transient_errors rs)"

fun read_progress :: "read_result list \<Rightarrow> bool" where
  "read_progress [] = True"
| "read_progress (Delivered bs # rs) = (length bs < 2147483648 \<and> read_progress rs)"
| "read_progress (ReadError e # rs) = ((e = EINTR \<or> e = EAGAIN) \<and> read_progress rs)"

fun delivered :: "read_result list \<Rightarrow> byte list" where
  "delivered [] = []"
| "delivered (Delivered bs # rs) = bs @ delivered rs"
| "delivered (ReadError e # rs) = delivered rs"

fun errno_after :: "errno_t \<Rightarrow> read_result list \<Rightarrow> errno_t" where
  "errno_after en [] = en"
| "errno_after en (Delivered bs # rs) = errno_after en rs"
| "errno_after en (ReadError e # rs) = errno_after e rs"

text \<open>
  The calls to expect while the results \<open>rs\<close> are consumed, starting with \<open>nbytes\<close>
  bytes in place: before every attempt a wait for readability bounded by the
  timeout; after a delivery of no bytes a wait for the \<open>readyRead\<close> signal; after a
  transient failure the same attempt again.
\<close>

fun expected_read_calls :: "int \<Rightarrow> uint \<Rightarrow> uint \<Rightarrow> read_result list \<Rightarrow> io_call list" where
  "expected_read_calls t sz nbytes [] = []"
| "expected_read_calls t sz nbytes (Delivered bs # rs) =
     [WaitForReadyRead t, SocketRead (unat nbytes) (unat (sz - nbytes))] @
     (if bs = [] then [ReadyReadLoopExec] else []) @
     expected_read_calls t sz (nbytes + of_nat (length bs)) rs"
| "expected_read_calls t sz nbytes (ReadError e # rs) =
     [WaitForReadyRead t, SocketRead (unat nbytes) (unat (sz - nbytes))] @
     expected_read_calls t sz nbytes rs"

text \<open>
  The same for the write loop.  \<open>write_steady ws\<close>: every accepted transfer is of at
  least one byte and every failure is transient; \<open>write_progress ws\<close>: moreover every
  accepted transfer is of fewer than \<open>2^31\<close> bytes.
\<close>

fun write_steady :: "write_result list \<Rightarrow> bool" where
  "write_steady [] = True"
| "write_steady (Accepted n # ws) = (0 < n \<and> write_steady ws)"
| "write_steady (WriteError e # ws) = ((e = EINTR \<or> e = EAGAIN) \<and> write_steady ws)"

fun write_progress :: "write_result list \<Rightarrow> bool" where
  "write_progress [] = True"
| "write_progress (Accepted n # ws) = (0 < n \<and> n < 2147483648 \<and> write_progress ws)"
| "write_progress (WriteError e # ws) = ((e = EINTR \<or> e = EAGAIN) \<and> write_progress ws)"

fun accepted :: "write_result list \<Rightarrow> nat" where
  "accepted [] = 0"
| "accepted (Accepted n # ws) = n + accepted ws"
| "accepted (WriteError e # ws) = accepted ws"

fun errno_after_write :: "errno_t \<Rightarrow> write_result list \<Rightarrow> errno_t" where
  "errno_after_write en [] = en"
| "errno_after_write en (Accepted n # ws) = errno_after_write en ws"
| "errno_after_write en (WriteError e # ws) = errno_after_write e ws"

fun expected_write_calls :: "int \<Rightarrow> uint \<Rightarrow> uint \<Rightarrow> write_result list \<Rightarrow> io_call list" where
  "expected_write_calls t sz nbytes [] = []"
| "expected_write_calls t sz nbytes (Accepted n # ws) =
     [WaitForBytesWritten t, SocketWrite (unat nbytes) (unat (sz - nbytes))] @
     expected_write_calls t sz (nbytes + of_nat n) ws"
| "expected_write_calls t sz nbytes (WriteError e # ws) =
     [WaitForBytesWritten t, SocketWrite (unat nbytes) (unat (sz - nbytes))] @
     expected_write_calls t sz nbytes ws"

section \<open>Simulated transports and heaps\<close>

text \<open>
  Concrete inputs for the closed theorems below: a heap with nothing allocated in
  which \<open>n\<close> calls of \<open>malloc\<close> succeed, a heap with one connected handle, and four
  transports.
\<close>

definition initial_heap :: "nat \<Rightarrow> heap" where
  "initial_heap n =
     \<lparr>cells = (\<lambda>_. None), serial_blocks = Map.empty, device_blocks = Map.empty,
      socket_objs = Map.empty, next_addr = 4096, malloc_budget = n, errno = EOTHER 0\<rparr>"

definition idle_socket :: "SocketState \<Rightarrow> SocketError \<Rightarrow> int \<Rightarrow> QBluetoothSocket" where
  "idle_socket st err fd =
     \<lparr>state = st, error = err, socketDescriptor = fd, incoming = [], outgoing = []\<rparr>"

text \<open>Every connection attempt is refused at once with the error \<open>err\<close>.\<close>

definition refusing :: "SocketError \<Rightarrow> transport" where
  "refusing err calls = idle_socket UnconnectedState err (- 1)"

text \<open>
  Channel 1 is still connecting when the first timer fires and is refused during the
  second wait.
\<close>

definition slow_refusal :: transport where
  "slow_refusal calls =
     (if length calls \<le> 3 then idle_socket ConnectingState NoSocketError (- 1)
      else idle_socket UnconnectedState HostNotFoundError (- 1))"

text \<open>Channel 1 is refused at once, channel 5 connects at once.\<close>

definition channel5_only :: transport where
  "channel5_only calls =
     (if length calls \<le> 3 then idle_socket UnconnectedState ServiceNotFoundError (- 1)
      else idle_socket ConnectedState NoSocketError 7)"

text \<open>No connection attempt is ever answered: the socket stays in \<open>ConnectingState\<close>.\<close>

definition unanswered :: transport where
  "unanswered calls = idle_socket ConnectingState NoSocketError (- 1)"

text \<open>
  A heap with one handle at address 4096 whose socket, at address 4097, is connected;
  \<open>rs\<close> and \<open>ws\<close> are what its coming \<open>read\<close> and \<open>write\<close> calls report.
\<close>

definition connected_heap :: "read_result list \<Rightarrow> write_result list \<Rightarrow> heap" where
  "connected_heap rs ws =
     \<lparr>cells = (\<lambda>_. None),
      serial_blocks = [4096 \<mapsto> Live \<lparr>context_ptr = None, socket = Some 4097, timeout = - 1\<rparr>],
      device_blocks = Map.empty,
      socket_objs = [4097 \<mapsto> Live \<lparr>state = ConnectedState, error = NoSocketError,
                       socketDescriptor = 7, incoming = rs, outgoing = ws\<rparr>],
      next_addr = 4098, malloc_budget = 0, errno = EOTHER 0\<rparr>"

text \<open>Calling \<open>qt_serial_close\<close> twice on the same pointer.\<close>

definition close_twice :: "heap \<Rightarrow> ptr \<Rightarrow> (int \<times> heap \<times> mem_call list) outcome" where
  "close_twice h device =
     (case qt_serial_close h device of
        Return (r, h1, calls) \<Rightarrow> qt_serial_close h1 device
      | Fault f \<Rightarrow> Fault f
      | Blocked \<Rightarrow> Blocked)"

section \<open>Arithmetic of \<open>unsigned int\<close> and \<open>int\<close>\<close>

lemma sint_small:
  fixes w :: "32 word"
  assumes a: "unat w < 2147483648"
  shows "sint w = int (unat w)"
proof -
  have u: "uint w = int (unat w)" by (rule uint_nat)
  have nonneg: "0 \<le> uint w" by simp
  have small: "uint w < 2147483648" using a u by linarith
  have "sint w = signed_take_bit 31 (uint w)" by (simp add: sint_uint)
  also have "\<dots> = uint w"
  proof (rule signed_take_bit_int_eq_self)
    show "- (2 ^ 31) \<le> uint w" by (rule order_trans [OF _ nonneg]) simp
    show "uint w < 2 ^ 31" using small by simp
  qed
  finally have s: "sint w = uint w" .
  show ?thesis by (rule trans [OF s u])
qed

lemma unat_add_small:
  fixes a :: "32 word"
  shows "unat a + n < 4294967296 \<Longrightarrow> unat (a + of_nat n) = unat a + n"
  by (simp add: unat_word_ariths unat_of_nat)

lemma unat_bound32: "unat (w :: 32 word) < 4294967296"
proof -
  have "unat w < 2 ^ LENGTH(32)" by (rule unsigned_less)
  then show ?thesis by simp
qed

lemma unat_add_below:
  fixes a sz :: "32 word"
  assumes "unat a + n \<le> unat sz"
  shows "unat (a + of_nat n) = unat a + n"
proof (rule unat_add_small)
  show "unat a + n < 4294967296" using assms unat_bound32 [of sz] by linarith
qed

lemma sint_of_nat_small:
  assumes "k < 2147483648"
  shows "sint (of_nat k :: uint) = int k"
proof -
  have "unat (0 + of_nat k :: uint) = unat (0 :: uint) + k"
    by (rule unat_add_small) (use assms in simp)
  then have u: "unat (of_nat k :: uint) = k" by simp
  then have "sint (of_nat k :: uint) = int (unat (of_nat k :: uint))"
    using assms by (intro sint_small) simp
  with u show ?thesis by simp
qed

text \<open>A count below \<open>2^31\<close> is not changed by the conversion to \<open>int\<close>.\<close>

lemma int_cast_count:
  assumes "n < 2147483648"
  shows "int_cast (int n) = int n"
  using sint_of_nat_small [OF assms] by (simp add: int_cast_def)

lemma int_cast_minus_one: "int_cast (- 1) = - 1"
  by (simp add: int_cast_def)

section \<open>The transfer loops\<close>

text \<open>
  While the results make progress and the target is not reached, the loop consumes
  them one by one.
\<close>

lemma write_loop_progress:
  assumes "write_progress pre" and "unat nbytes + accepted pre < unat sz"
  shows "write_loop t sz nbytes en (Inr (pre @ rest)) log =
         write_loop t sz (nbytes + of_nat (accepted pre)) (errno_after_write en pre) (Inr rest)
           (log @ expected_write_calls (int_cast t) sz nbytes pre)"
  using assms
proof (induction pre arbitrary: nbytes en log)
  case Nil
  then show ?case by simp
next
  case (Cons w pre)
  let ?log1 = "log @ [WaitForBytesWritten (int_cast t),
                      SocketWrite (unat nbytes) (unat (sz - nbytes))]"
  show ?case
  proof (cases w)
    case (Accepted n)
    from Cons.prems Accepted have n: "0 < n" and nb: "n < 2147483648"
      and wp: "write_progress pre"
      and lt: "unat nbytes + n + accepted pre < unat sz" by simp_all
    have rc: "int_cast (int n) = int n" by (rule int_cast_count [OF nb])
    have u: "unat (nbytes + of_nat n) = unat nbytes + n"
      by (rule unat_add_below [where sz = sz]) (use lt in linarith)
    have less: "nbytes < sz" using lt by (simp add: word_less_nat_alt)
    have step: "write_loop t sz nbytes en (Inr ((w # pre) @ rest)) log =
          write_loop t sz (nbytes + of_nat n) en (Inr (pre @ rest)) ?log1"
      using Accepted n less rc by simp
    have ih: "write_loop t sz (nbytes + of_nat n) en (Inr (pre @ rest)) ?log1 =
        write_loop t sz (nbytes + of_nat n + of_nat (accepted pre)) (errno_after_write en pre)
          (Inr rest) (?log1 @ expected_write_calls (int_cast t) sz (nbytes + of_nat n) pre)"
      by (rule Cons.IH [OF wp]) (use u lt in simp)
    show ?thesis using step ih Accepted by (simp add: ac_simps)
  next
    case (WriteError e)
    from Cons.prems WriteError have e: "e = EINTR \<or> e = EAGAIN" and wp: "write_progress pre"
      and lt: "unat nbytes + accepted pre < unat sz" by simp_all
    have less: "nbytes < sz" using lt by (simp add: word_less_nat_alt)
    have step: "write_loop t sz nbytes en (Inr ((w # pre) @ rest)) log =
          write_loop t sz nbytes e (Inr (pre @ rest)) ?log1"
      using WriteError e less by auto
    have ih: "write_loop t sz nbytes e (Inr (pre @ rest)) ?log1 =
        write_loop t sz (nbytes + of_nat (accepted pre)) (errno_after_write e pre) (Inr rest)
          (?log1 @ expected_write_calls (int_cast t) sz nbytes pre)"
      by (rule Cons.IH [OF wp lt])
    show ?thesis using step ih WriteError by simp
  qed
qed

lemma read_loop_progress:
  assumes "read_progress pre"
    and "length front = unat nbytes"
    and "unat nbytes + length (delivered pre) < unat sz"
    and "length (delivered pre) \<le> length bk"
  shows "read_loop t sz nbytes (front @ bk) en (Inr (pre @ rest)) log =
         read_loop t sz (nbytes + of_nat (length (delivered pre)))
           (front @ delivered pre @ drop (length (delivered pre)) bk)
           (errno_after en pre) (Inr rest)
           (log @ expected_read_calls (int_cast t) sz nbytes pre)"
  using assms
proof (induction pre arbitrary: nbytes front bk en log)
  case Nil
  then show ?case by simp
next
  case (Cons r pre)
  let ?log1 = "log @ [WaitForReadyRead (int_cast t),
                      SocketRead (unat nbytes) (unat (sz - nbytes))]"
  show ?case
  proof (cases r)
    case (Delivered bs)
    from Cons.prems Delivered have rp: "read_progress pre"
      and nb: "length bs < 2147483648"
      and len: "length front = unat nbytes"
      and lt: "unat nbytes + length bs + length (delivered pre) < unat sz"
      and fit: "length bs + length (delivered pre) \<le> length bk" by simp_all
    have rc: "int_cast (int (length bs)) = int (length bs)" by (rule int_cast_count [OF nb])
    have u: "unat (nbytes + of_nat (length bs)) = unat nbytes + length bs"
      by (rule unat_add_below [where sz = sz]) (use lt in linarith)
    have less: "nbytes < sz" using lt by (simp add: word_less_nat_alt)
    have step: "read_loop t sz nbytes (front @ bk) en (Inr ((r # pre) @ rest)) log =
          read_loop t sz (nbytes + of_nat (length bs)) (front @ bs @ drop (length bs) bk) en
            (Inr (pre @ rest)) (if length bs = 0 then ?log1 @ [ReadyReadLoopExec] else ?log1)"
      using Delivered less len fit rc by (simp add: Let_def)
    have ih: "read_loop t sz (nbytes + of_nat (length bs)) ((front @ bs) @ drop (length bs) bk) en
            (Inr (pre @ rest)) (if length bs = 0 then ?log1 @ [ReadyReadLoopExec] else ?log1) =
        read_loop t sz (nbytes + of_nat (length bs) + of_nat (length (delivered pre)))
        ((front @ bs) @ delivered pre @ drop (length (delivered pre)) (drop (length bs) bk))
        (errno_after en pre) (Inr rest)
        ((if length bs = 0 then ?log1 @ [ReadyReadLoopExec] else ?log1) @
          expected_read_calls (int_cast t) sz (nbytes + of_nat (length bs)) pre)"
      by (rule Cons.IH [OF rp]) (use u len lt fit in simp_all)
    show ?thesis using step ih Delivered by (simp add: ac_simps)
  next
    case (ReadError e)
    from Cons.prems ReadError have e: "e = EINTR \<or> e = EAGAIN" and rp: "read_progress pre"
      and len: "length front = unat nbytes"
      and lt: "unat nbytes + length (delivered pre) < unat sz"
      and fit: "length (delivered pre) \<le> length bk" by simp_all
    have less: "nbytes < sz" using lt by (simp add: word_less_nat_alt)
    have step: "read_loop t sz nbytes (front @ bk) en (Inr ((r # pre) @ rest)) log =
          read_loop t sz nbytes (front @ bk) e (Inr (pre @ rest)) ?log1"
      using ReadError e less by auto
    have ih: "read_loop t sz nbytes (front @ bk) e (Inr (pre @ rest)) ?log1 =
        read_loop t sz (nbytes + of_nat (length (delivered pre)))
        (front @ delivered pre @ drop (length (delivered pre)) bk) (errno_after e pre) (Inr rest)
        (?log1 @ expected_read_calls (int_cast t) sz nbytes pre)"
      by (rule Cons.IH [OF rp len lt fit])
    show ?thesis using step ih ReadError by simp
  qed
qed

lemma read_loop_done:
  "\<not> nbytes < sz \<Longrightarrow>
   read_loop t sz nbytes data en (Inr rs) log = Return (sint nbytes, data, en, rs, log)"
  by (cases rs) simp_all

lemma write_loop_done:
  "\<not> nbytes < sz \<Longrightarrow>
   write_loop t sz nbytes en (Inr ws) log = Return (sint nbytes, en, ws, log)"
  by (cases ws) simp_all

lemma expected_read_calls_append:
  "expected_read_calls t sz nbytes (pre @ post) =
   expected_read_calls t sz nbytes pre @
   expected_read_calls t sz (nbytes + of_nat (length (delivered pre))) post"
proof (induction pre arbitrary: nbytes)
  case Nil
  show ?case by simp
next
  case (Cons r pre)
  show ?case by (cases r) (simp_all add: Cons.IH ac_simps)
qed

lemma expected_write_calls_append:
  "expected_write_calls t sz nbytes (pre @ post) =
   expected_write_calls t sz nbytes pre @
   expected_write_calls t sz (nbytes + of_nat (accepted pre)) post"
proof (induction pre arbitrary: nbytes)
  case Nil
  show ?case by simp
next
  case (Cons w pre)
  show ?case by (cases w) (simp_all add: Cons.IH ac_simps)
qed

text \<open>
  When the bytes delivered stay below \<open>2^31\<close> in all, every delivery does; likewise
  for the bytes accepted.
\<close>

lemma read_progress_total:
  "transient_errors pre \<Longrightarrow> length (delivered pre) < 2147483648 \<Longrightarrow> read_progress pre"
proof (induction pre)
  case Nil
  show ?case by simp
next
  case (Cons r pre)
  then show ?case by (cases r) simp_all
qed

lemma write_progress_total:
  "write_steady pre \<Longrightarrow> accepted pre < 2147483648 \<Longrightarrow> write_progress pre"
proof (induction pre)
  case Nil
  show ?case by simp
next
  case (Cons w pre)
  then show ?case by (cases w) simp_all
qed

lemma qt_serial_read_live:
  assumes "serial_blocks h a = Some b" and "socket (contents b) = Some q"
    and "socket_objs h q = Some (Live s)"
  shows "qt_serial_read h (Some a) data sz =
         (case read_loop (timeout (contents b)) sz 0 data (errno h) (Inr (incoming s)) [] of
            Return (r, data', en, rest, log) \<Rightarrow>
              Return (r, data', (set_incoming h q rest)\<lparr>errno := en\<rparr>, log)
          | Fault f \<Rightarrow> Fault f
          | Blocked \<Rightarrow> Blocked)"
  using assms by (simp add: qt_serial_read_def socket_view_def)

lemma qt_serial_write_live:
  assumes "serial_blocks h a = Some b" and "socket (contents b) = Some q"
    and "socket_objs h q = Some (Live s)"
  shows "qt_serial_write h (Some a) data sz =
         (case write_loop (timeout (contents b)) sz 0 (errno h) (Inr (outgoing s)) [] of
            Return (r, en, rest, log) \<Rightarrow> Return (r, (set_outgoing h q rest)\<lparr>errno := en\<rparr>, log)
          | Fault f \<Rightarrow> Fault f
          | Blocked \<Rightarrow> Blocked)"
  using assms by (simp add: qt_serial_write_def socket_view_def)

lemma read_loop_completes:
  assumes rp: "read_progress pre" and ne: "bs \<noteq> []" and nb: "length bs < 2147483648"
    and total: "length (delivered pre) + length bs = unat sz"
    and fit: "unat sz \<le> length data"
  shows "read_loop t sz 0 data en (Inr (pre @ Delivered bs # rest)) [] =
         Return (sint sz, delivered pre @ bs @ drop (unat sz) data, errno_after en pre, rest,
                 expected_read_calls (int_cast t) sz 0 (pre @ [Delivered bs]))"
proof -
  let ?n = "length (delivered pre)"
  let ?nb = "of_nat ?n :: uint"
  let ?calls = "expected_read_calls (int_cast t) sz 0 pre"
  have lt: "?n < unat sz" using total ne by (cases bs) simp_all
  have un: "unat ?nb = ?n"
    using unat_add_below [of 0 ?n sz] lt by simp
  have less: "?nb < sz" using lt un by (simp add: word_less_nat_alt)
  have rc: "int_cast (int (length bs)) = int (length bs)" by (rule int_cast_count [OF nb])
  have fin: "?nb + of_nat (length bs) = sz"
  proof -
    have "unat (?nb + of_nat (length bs)) = unat ?nb + length bs"
      by (rule unat_add_below [where sz = sz]) (use un total in simp)
    then have "unat (?nb + of_nat (length bs)) = unat sz" using un total by simp
    then show ?thesis by (simp only: word_unat_eq_iff)
  qed
  have "read_loop t sz 0 ([] @ data) en (Inr (pre @ Delivered bs # rest)) [] =
        read_loop t sz (0 + ?nb) ([] @ delivered pre @ drop ?n data) (errno_after en pre)
          (Inr (Delivered bs # rest)) ([] @ ?calls)"
    by (rule read_loop_progress [OF rp]) (use lt fit in simp_all)
  then have "read_loop t sz 0 data en (Inr (pre @ Delivered bs # rest)) [] =
        read_loop t sz ?nb (delivered pre @ drop ?n data) (errno_after en pre)
          (Inr (Delivered bs # rest)) ?calls"
    by simp
  also have "\<dots> = read_loop t sz sz (delivered pre @ bs @ drop (unat sz) data)
          (errno_after en pre) (Inr rest)
          (?calls @ [WaitForReadyRead (int_cast t), SocketRead (unat ?nb) (unat (sz - ?nb))])"
    using less un fin ne total fit rc by (simp add: ac_simps Let_def)
  also have "\<dots> = Return (sint sz, delivered pre @ bs @ drop (unat sz) data,
          errno_after en pre, rest,
          ?calls @ [WaitForReadyRead (int_cast t), SocketRead (unat ?nb) (unat (sz - ?nb))])"
    by (rule read_loop_done) simp
  finally show ?thesis using ne by (simp add: expected_read_calls_append)
qed

lemma read_loop_hard_failure:
  assumes rp: "read_progress pre" and hard: "e \<noteq> EINTR" "e \<noteq> EAGAIN"
    and lt: "length (delivered pre) < unat sz"
    and fit: "length (delivered pre) \<le> length data"
  shows "read_loop t sz 0 data en (Inr (pre @ ReadError e # rest)) [] =
         Return (- 1, delivered pre @ drop (length (delivered pre)) data, e, rest,
                 expected_read_calls (int_cast t) sz 0 (pre @ [ReadError e]))"
proof -
  let ?n = "length (delivered pre)"
  let ?nb = "of_nat ?n :: uint"
  let ?calls = "expected_read_calls (int_cast t) sz 0 pre"
  have un: "unat ?nb = ?n"
    using unat_add_below [of 0 ?n sz] lt by simp
  have less: "?nb < sz" using lt un by (simp add: word_less_nat_alt)
  have "read_loop t sz 0 ([] @ data) en (Inr (pre @ ReadError e # rest)) [] =
        read_loop t sz (0 + ?nb) ([] @ delivered pre @ drop ?n data) (errno_after en pre)
          (Inr (ReadError e # rest)) ([] @ ?calls)"
    by (rule read_loop_progress [OF rp]) (use lt fit in simp_all)
  then have "read_loop t sz 0 data en (Inr (pre @ ReadError e # rest)) [] =
        read_loop t sz ?nb (delivered pre @ drop ?n data) (errno_after en pre)
          (Inr (ReadError e # rest)) ?calls"
    by simp
  also have "\<dots> = Return (- 1, delivered pre @ drop ?n data, e, rest,
          ?calls @ [WaitForReadyRead (int_cast t), SocketRead (unat ?nb) (unat (sz - ?nb))])"
    using less hard by simp
  finally show ?thesis by (simp add: expected_read_calls_append)
qed

lemma write_loop_short:
  assumes wp: "write_progress pre" and lt: "accepted pre < unat sz"
  shows "write_loop t sz 0 en (Inr (pre @ Accepted 0 # rest)) [] =
         Return (sint (of_nat (accepted pre) :: uint), errno_after_write en pre, rest,
                 expected_write_calls (int_cast t) sz 0 (pre @ [Accepted 0]))"
proof -
  let ?n = "accepted pre"
  let ?nb = "of_nat ?n :: uint"
  let ?calls = "expected_write_calls (int_cast t) sz 0 pre"
  have un: "unat ?nb = ?n"
    using unat_add_below [of 0 ?n sz] lt by simp
  have less: "?nb < sz" using lt un by (simp add: word_less_nat_alt)
  have z: "int_cast 0 = 0" by (simp add: int_cast_def)
  have "write_loop t sz 0 en (Inr (pre @ Accepted 0 # rest)) [] =
        write_loop t sz (0 + ?nb) (errno_after_write en pre) (Inr (Accepted 0 # rest))
          ([] @ ?calls)"
    by (rule write_loop_progress [OF wp]) (use lt in simp)
  also have "\<dots> = Return (sint ?nb, errno_after_write en pre, rest,
          ?calls @ [WaitForBytesWritten (int_cast t), SocketWrite (unat ?nb) (unat (sz - ?nb))])"
    using less z by simp
  finally show ?thesis by (simp add: expected_write_calls_append)
qed

lemma write_loop_hard_failure:
  assumes wp: "write_progress pre" and hard: "e \<noteq> EINTR" "e \<noteq> EAGAIN"
    and lt: "accepted pre < unat sz"
  shows "write_loop t sz 0 en (Inr (pre @ WriteError e # rest)) [] =
         Return (- 1, e, rest, expected_write_calls (int_cast t) sz 0 (pre @ [WriteError e]))"
proof -
  let ?n = "accepted pre"
  let ?nb = "of_nat ?n :: uint"
  let ?calls = "expected_write_calls (int_cast t) sz 0 pre"
  have un: "unat ?nb = ?n"
    using unat_add_below [of 0 ?n sz] lt by simp
  have less: "?nb < sz" using lt un by (simp add: word_less_nat_alt)
  have "write_loop t sz 0 en (Inr (pre @ WriteError e # rest)) [] =
        write_loop t sz (0 + ?nb) (errno_after_write en pre) (Inr (WriteError e # rest))
          ([] @ ?calls)"
    by (rule write_loop_progress [OF wp]) (use lt in simp)
  also have "\<dots> = Return (- 1, e, rest,
          ?calls @ [WaitForBytesWritten (int_cast t), SocketWrite (unat ?nb) (unat (sz - ?nb))])"
    using less hard by simp
  finally show ?thesis by (simp add: expected_write_calls_append)
qed

section \<open>Facts about the fixtures\<close>

lemma connected_heap_handle:
  "serial_blocks (connected_heap rs ws) 4096 =
     Some (Live \<lparr>context_ptr = None, socket = Some 4097, timeout = - 1\<rparr>)"
  "socket_objs (connected_heap rs ws) 4097 =
     Some (Live \<lparr>state = ConnectedState, error = NoSocketError, socketDescriptor = 7,
                  incoming = rs, outgoing = ws\<rparr>)"
  "errno (connected_heap rs ws) = EOTHER 0"
  by (simp_all add: connected_heap_def)

lemma connected_heap_set_incoming:
  "set_incoming (connected_heap rs ws) 4097 rs' = connected_heap rs' ws"
  by (simp add: connected_heap_def set_incoming_def)

lemma connected_heap_set_outgoing:
  "set_outgoing (connected_heap rs ws) 4097 ws' = connected_heap rs ws'"
  by (simp add: connected_heap_def set_outgoing_def)

section \<open>Opening: error classification, channel fallback, the out parameter\<close>

lemmas status_values =
  DC_STATUS_SUCCESS_def DC_STATUS_UNSUPPORTED_def DC_STATUS_INVALIDARGS_def
  DC_STATUS_NOMEMORY_def DC_STATUS_NODEVICE_def DC_STATUS_IO_def DC_STATUS_PROTOCOL_def
  UnknownSocketError_value_def

text \<open>
  The classification table of lines 90 to 101: the four classified groups map to
  enumerators of \<open>dc_status_t\<close>.
\<close>

lemma error_status_classified:
  "error_status v HostNotFoundError = DC_STATUS_NODEVICE"
  "error_status v ServiceNotFoundError = DC_STATUS_NODEVICE"
  "error_status v UnsupportedProtocolError = DC_STATUS_PROTOCOL"
  "328704 \<le> v \<Longrightarrow> error_status v OperationError = DC_STATUS_UNSUPPORTED"
  "error_status v NetworkError = DC_STATUS_IO"
  by (simp_all add: error_status_def)

text \<open>
  The default branch (line 103) returns the socket's own enumerator, whose value is
  that of \<open>DC_STATUS_UNSUPPORTED\<close>.
\<close>

lemma error_status_default:
  "error_status v NoSocketError = DC_STATUS_UNSUPPORTED"
  "error_status v UnknownSocketError = DC_STATUS_UNSUPPORTED"
  "error_status v RemoteHostClosedError = DC_STATUS_UNSUPPORTED"
  by (simp_all add: error_status_def status_values)

lemma error_status_not_invalidargs: "error_status v e \<noteq> DC_STATUS_INVALIDARGS"
  by (cases e) (simp_all add: error_status_def status_values)

lemma error_status_not_success: "error_status v e \<noteq> DC_STATUS_SUCCESS"
  by (cases e) (simp_all add: error_status_def status_values)

text \<open>With a non-null \<open>out\<close> and memory, the calls made are those of lines 57 to 81.\<close>

lemma qt_serial_open_calls:
  assumes "malloc_budget h \<noteq> 0"
  shows "snd (qt_serial_open stale tr v h (Some l) ctx devaddr) = connect_calls tr devaddr"
  using assms
  by (simp add: qt_serial_open_def malloc_def new_socket_def Let_def split: prod.splits)

lemma qt_serial_open_failure_frame:
  assumes "fst (qt_serial_open stale tr v h out ctx devaddr) = Return (r, h')"
    and "r \<noteq> DC_STATUS_SUCCESS"
  shows "cells h' = cells h \<and> device_blocks h' = device_blocks h"
  using assms
  by (auto simp: qt_serial_open_def malloc_def new_socket_def Let_def
           split: option.splits prod.splits if_splits)

text \<open>
  Claim C1.  When the connection fails with a last error outside the classified
  groups, the claim expects the portable unknown kind.  Here no attempt is answered
  (the socket is still connecting after both waits, its last error is
  \<open>NoSocketError\<close>).  The function reads the socket pointer from the block it has just
  freed: the call faults.  Where the freed block still holds the pointer, the function
  returns \<open>QBluetoothSocket::UnknownSocketError\<close>, the integer that is
  \<open>DC_STATUS_UNSUPPORTED\<close>.
\<close>

theorem open_unclassified_error:
  "fst (qt_serial_open False unanswered 328704 (initial_heap 1) (Some (Cell 0)) None
      ''00:11:22:33:44:55'') = Fault UseAfterFree \<and>
   map_outcome fst (fst (qt_serial_open True unanswered 328704 (initial_heap 1) (Some (Cell 0))
      None ''00:11:22:33:44:55'')) = Return UnknownSocketError_value \<and>
   UnknownSocketError_value = DC_STATUS_UNSUPPORTED"
  by (simp add: qt_serial_open_def malloc_def new_socket_def initial_heap_def unanswered_def
      idle_socket_def error_status_def status_values Let_def)

text \<open>
  Claim C2, as amended.  The state of the socket at the end of the first wait of
  5000 ms on channel 1 decides.  When it is \<open>UnconnectedState\<close>, the function connects
  on channel 5 and waits 5000 ms, then 15000 ms more if the socket is still
  connecting; it makes no wait of 15000 ms on channel 1.  When it is
  \<open>ConnectingState\<close>, the function waits 15000 ms on channel 1 and makes no further
  call, whatever the socket does during that wait: there is no attempt on channel 5.
\<close>

theorem open_channel_sequence:
  assumes "malloc_budget h \<noteq> 0"
  shows
    "(state (tr [ConnectToService (QBluetoothAddress devaddr) 1, TimerStart 5000, LoopExec]) =
        UnconnectedState \<longrightarrow>
      snd (qt_serial_open stale tr v h (Some l) ctx devaddr) =
        [ConnectToService (QBluetoothAddress devaddr) 1, TimerStart 5000, LoopExec,
         ConnectToService (QBluetoothAddress devaddr) 5, TimerStart 5000, LoopExec] @
        (if state (tr [ConnectToService (QBluetoothAddress devaddr) 1, TimerStart 5000, LoopExec,
                       ConnectToService (QBluetoothAddress devaddr) 5, TimerStart 5000,
                       LoopExec]) = ConnectingState
         then [TimerStart 15000, LoopExec] else [])) \<and>
     (state (tr [ConnectToService (QBluetoothAddress devaddr) 1, TimerStart 5000, LoopExec]) =
        ConnectingState \<longrightarrow>
      snd (qt_serial_open stale tr v h (Some l) ctx devaddr) =
        [ConnectToService (QBluetoothAddress devaddr) 1, TimerStart 5000, LoopExec,
         TimerStart 15000, LoopExec])"
  using assms
  by (simp add: qt_serial_open_calls connect_calls_def msec_def Let_def)

text \<open>
  Witness for C2.  First, channel 1 is refused at once and channel 5 accepts: the
  function succeeds after the two waits of 5000 ms.  Second, no attempt is answered:
  the function waits 5000 ms and 15000 ms on channel 1 and makes no other call.
\<close>

theorem open_channel_sequence_witness:
  "map_outcome fst (fst (qt_serial_open False channel5_only 328704 (initial_heap 1)
      (Some (Cell 0)) None ''00:11:22:33:44:55'')) = Return DC_STATUS_SUCCESS \<and>
   snd (qt_serial_open False channel5_only 328704 (initial_heap 1) (Some (Cell 0)) None
      ''00:11:22:33:44:55'') =
     [ConnectToService (QBluetoothAddress ''00:11:22:33:44:55'') 1, TimerStart 5000, LoopExec,
      ConnectToService (QBluetoothAddress ''00:11:22:33:44:55'') 5, TimerStart 5000, LoopExec] \<and>
   snd (qt_serial_open False unanswered 328704 (initial_heap 1) (Some (Cell 0)) None
      ''00:11:22:33:44:55'') =
     [ConnectToService (QBluetoothAddress ''00:11:22:33:44:55'') 1, TimerStart 5000, LoopExec,
      TimerStart 15000, LoopExec]"
proof -
  have b: "malloc_budget (initial_heap 1) \<noteq> 0" by (simp add: initial_heap_def)
  have ok: "map_outcome fst (fst (qt_serial_open False channel5_only 328704 (initial_heap 1)
      (Some (Cell 0)) None ''00:11:22:33:44:55'')) = Return DC_STATUS_SUCCESS"
    by (simp add: qt_serial_open_def malloc_def new_socket_def initial_heap_def
        channel5_only_def idle_socket_def connect_calls_def msec_def Let_def)
  show ?thesis
    using ok
      open_channel_sequence [OF b, where tr = channel5_only
        and devaddr = "''00:11:22:33:44:55''" and stale = False and v = 328704
        and l = "Cell 0" and ctx = None]
      open_channel_sequence [OF b, where tr = unanswered
        and devaddr = "''00:11:22:33:44:55''" and stale = False and v = 328704
        and l = "Cell 0" and ctx = None]
    by (simp add: channel5_only_def unanswered_def idle_socket_def)
qed

text \<open>
  Counterexample to C2 as stated.  Channel 1 is still connecting when the first timer
  fires and is refused during the wait of 15000 ms: the attempt has ended in
  \<open>UnconnectedState\<close>, and the function makes no connection attempt on channel 5.
\<close>

theorem open_no_fallback_after_extended_wait:
  "snd (qt_serial_open False slow_refusal 328704 (initial_heap 1) (Some (Cell 0)) None
      ''00:11:22:33:44:55'') =
     [ConnectToService (QBluetoothAddress ''00:11:22:33:44:55'') 1, TimerStart 5000, LoopExec,
      TimerStart 15000, LoopExec] \<and>
   snd (qt_serial_open True slow_refusal 328704 (initial_heap 1) (Some (Cell 0)) None
      ''00:11:22:33:44:55'') =
     [ConnectToService (QBluetoothAddress ''00:11:22:33:44:55'') 1, TimerStart 5000, LoopExec,
      TimerStart 15000, LoopExec] \<and>
   state (slow_refusal
     [ConnectToService (QBluetoothAddress ''00:11:22:33:44:55'') 1, TimerStart 5000, LoopExec,
      TimerStart 15000, LoopExec]) = UnconnectedState"
  by (simp add: qt_serial_open_def malloc_def new_socket_def initial_heap_def slow_refusal_def
      idle_socket_def connect_calls_def msec_def Let_def)

text \<open>
  Claim C4, as amended.  The function does not examine the device address: whatever
  the address, it returns \<open>DC_STATUS_INVALIDARGS\<close> exactly when \<open>out\<close> is \<open>NULL\<close>.
\<close>

theorem open_invalidargs_iff_null_out:
  "map_outcome fst (fst (qt_serial_open stale tr v h out ctx devaddr)) =
     Return DC_STATUS_INVALIDARGS \<longleftrightarrow> out = None"
proof -
  have d: "DC_STATUS_NOMEMORY \<noteq> DC_STATUS_INVALIDARGS"
    "DC_STATUS_SUCCESS \<noteq> DC_STATUS_INVALIDARGS"
    by (simp_all add: status_values)
  show ?thesis
    by (auto simp: qt_serial_open_def Let_def error_status_not_invalidargs d
        split: option.splits prod.splits)
qed

text \<open>Witness for C4: a null \<open>out\<close> with a well-formed address.\<close>

theorem open_invalidargs_iff_null_out_witness:
  "map_outcome fst (fst (qt_serial_open False (refusing HostNotFoundError) 328704
      (initial_heap 1) None None ''00:11:22:33:44:55'')) = Return DC_STATUS_INVALIDARGS"
  using open_invalidargs_iff_null_out [of False "refusing HostNotFoundError" 328704
      "initial_heap 1" None None "''00:11:22:33:44:55''"]
  by simp

text \<open>
  Counterexample to C4 as stated.  The empty string is not a device address.  With no
  memory the function returns \<open>DC_STATUS_NOMEMORY\<close>.  With memory and a transport
  that finds no such host, the call faults on the read of the freed block; where the
  block still holds the socket pointer, it returns \<open>DC_STATUS_NODEVICE\<close>.  In no case
  does it return \<open>DC_STATUS_INVALIDARGS\<close>.
\<close>

theorem open_malformed_address_not_invalidargs:
  "fst (qt_serial_open False (refusing HostNotFoundError) 328704 (initial_heap 0)
      (Some (Cell 0)) None []) = Return (DC_STATUS_NOMEMORY, initial_heap 0) \<and>
   fst (qt_serial_open False (refusing HostNotFoundError) 328704 (initial_heap 1)
      (Some (Cell 0)) None []) = Fault UseAfterFree \<and>
   map_outcome fst (fst (qt_serial_open True (refusing HostNotFoundError) 328704
      (initial_heap 1) (Some (Cell 0)) None [])) = Return DC_STATUS_NODEVICE \<and>
   DC_STATUS_NOMEMORY \<noteq> DC_STATUS_INVALIDARGS \<and>
   DC_STATUS_NODEVICE \<noteq> DC_STATUS_INVALIDARGS"
  by (simp add: qt_serial_open_def malloc_def new_socket_def initial_heap_def refusing_def
      idle_socket_def error_status_def status_values Let_def)

text \<open>
  Claim C9.  When \<open>qt_serial_open\<close> returns anything but \<open>DC_STATUS_SUCCESS\<close>, every
  location that an \<open>out\<close> parameter can point to holds what it held before; when
  \<open>dc_serial_qt_open\<close> does, every pointer variable of the caller holds what it held
  before.
\<close>

theorem open_failure_leaves_out:
  "(fst (qt_serial_open stale tr v h out ctx devaddr) = Return (r, h') \<and>
    r \<noteq> DC_STATUS_SUCCESS \<longrightarrow>
      load_ptr h' l = load_ptr h l) \<and>
   (fst (dc_serial_qt_open ini stale tr v h out' ctx devaddr) = Return (r', h'') \<and>
    r' \<noteq> DC_STATUS_SUCCESS \<longrightarrow>
      cells h'' c = cells h c)"
proof (intro conjI impI)
  assume "fst (qt_serial_open stale tr v h out ctx devaddr) = Return (r, h') \<and>
    r \<noteq> DC_STATUS_SUCCESS"
  then have "cells h' = cells h \<and> device_blocks h' = device_blocks h"
    using qt_serial_open_failure_frame by blast
  then show "load_ptr h' l = load_ptr h l"
    by (cases l) simp_all
next
  assume f: "fst (dc_serial_qt_open ini stale tr v h out' ctx devaddr) = Return (r', h'') \<and>
    r' \<noteq> DC_STATUS_SUCCESS"
  show "cells h'' c = cells h c"
  proof (cases out')
    case None
    then show ?thesis using f by (auto simp: dc_serial_qt_open_def)
  next
    case (Some c')
    show ?thesis
    proof (cases "malloc_budget h = 0")
      case True
      then show ?thesis using Some f by (auto simp: dc_serial_qt_open_def malloc_def)
    next
      case False
      let ?h2 = "h\<lparr>next_addr := Suc (next_addr h), malloc_budget := malloc_budget h - 1,
                    device_blocks := (device_blocks h)(next_addr h \<mapsto> Live ini)\<rparr>"
      let ?res = "qt_serial_open stale tr v ?h2 (Some (PortOf (next_addr h))) ctx devaddr"
      from f Some False obtain h3 where
        inner: "fst ?res = Return (r', h3)" and h'': "h'' = update_device h3 (next_addr h) release"
        by (auto simp: dc_serial_qt_open_def malloc_def Let_def
            split: prod.splits outcome.splits if_splits)
      from f have "r' \<noteq> DC_STATUS_SUCCESS" by simp
      from qt_serial_open_failure_frame [OF inner this]
      have "cells h3 = cells h" by simp
      then show ?thesis using h'' by (simp add: update_device_def)
    qed
  qed
qed

text \<open>
  Witness for C9.  With no memory both functions return \<open>DC_STATUS_NOMEMORY\<close>; with
  memory, every connection attempt refused with "host not found" and the freed block
  still readable, both return \<open>DC_STATUS_NODEVICE\<close>.  Each time the caller's variable
  at address 0 still holds \<open>NULL\<close>.
\<close>

theorem open_failure_leaves_out_witness:
  "fst (qt_serial_open False (refusing HostNotFoundError) 328704 (initial_heap 0)
      (Some (Cell 0)) None ''00:11:22:33:44:55'') =
     Return (DC_STATUS_NOMEMORY, initial_heap 0) \<and>
   load_ptr (initial_heap 0) (Cell 0) = None \<and>
   map_outcome fst (fst (qt_serial_open True (refusing HostNotFoundError) 328704
      (initial_heap 1) (Some (Cell 0)) None ''00:11:22:33:44:55'')) =
     Return DC_STATUS_NODEVICE \<and>
   map_outcome (\<lambda>(r, h). load_ptr h (Cell 0)) (fst (qt_serial_open True
      (refusing HostNotFoundError) 328704 (initial_heap 1) (Some (Cell 0)) None
      ''00:11:22:33:44:55'')) = Return None \<and>
   map_outcome fst (fst (dc_serial_qt_open \<lparr>port = None, transport_type = None\<rparr> True
      (refusing HostNotFoundError) 328704 (initial_heap 2) (Some 0) None
      ''00:11:22:33:44:55'')) = Return DC_STATUS_NODEVICE \<and>
   map_outcome (\<lambda>(r, h). cells h 0) (fst (dc_serial_qt_open
      \<lparr>port = None, transport_type = None\<rparr> True (refusing HostNotFoundError) 328704
      (initial_heap 2) (Some 0) None ''00:11:22:33:44:55'')) = Return None"
proof -
  let ?o0 = "qt_serial_open False (refusing HostNotFoundError) 328704 (initial_heap 0)
      (Some (Cell 0)) None ''00:11:22:33:44:55''"
  let ?o1 = "qt_serial_open True (refusing HostNotFoundError) 328704 (initial_heap 1)
      (Some (Cell 0)) None ''00:11:22:33:44:55''"
  let ?d = "dc_serial_qt_open \<lparr>port = None, transport_type = None\<rparr> True
      (refusing HostNotFoundError) 328704 (initial_heap 2) (Some 0) None ''00:11:22:33:44:55''"
  have a0: "fst ?o0 = Return (DC_STATUS_NOMEMORY, initial_heap 0)"
    by (simp add: qt_serial_open_def malloc_def initial_heap_def)
  obtain h1 where a1: "fst ?o1 = Return (DC_STATUS_NODEVICE, h1)"
    by (simp add: qt_serial_open_def malloc_def new_socket_def initial_heap_def refusing_def
        idle_socket_def error_status_def Let_def)
  obtain h2 where a2: "fst ?d = Return (DC_STATUS_NODEVICE, h2)"
    by (simp add: dc_serial_qt_open_def qt_serial_open_def malloc_def new_socket_def
        initial_heap_def refusing_def idle_socket_def error_status_def status_values Let_def)
  have n: "DC_STATUS_NOMEMORY \<noteq> DC_STATUS_SUCCESS" "DC_STATUS_NODEVICE \<noteq> DC_STATUS_SUCCESS"
    by (simp_all add: status_values)
  have "load_ptr h1 (Cell 0) = load_ptr (initial_heap 1) (Cell 0)"
    using open_failure_leaves_out [of True "refusing HostNotFoundError" 328704 "initial_heap 1"
        "Some (Cell 0)" None "''00:11:22:33:44:55''" DC_STATUS_NODEVICE h1 "Cell 0"] a1 n
    by simp
  moreover have "cells h2 0 = cells (initial_heap 2) 0"
    using open_failure_leaves_out [where ini = "\<lparr>port = None, transport_type = None\<rparr>"
        and stale = True and tr = "refusing HostNotFoundError" and v = 328704
        and h = "initial_heap 2" and out' = "Some 0" and ctx = None
        and devaddr = "''00:11:22:33:44:55''" and r' = DC_STATUS_NODEVICE and h'' = h2
        and c = 0] a2 n
    by simp
  ultimately show ?thesis using a0 a1 a2 by (simp add: initial_heap_def)
qed

section \<open>Closing and flushing\<close>

text \<open>
  Claim C3, as amended.  \<open>qt_serial_flush\<close> changes nothing.  It returns
  \<open>DC_STATUS_INVALIDARGS\<close> for a null handle and for a handle whose socket pointer is
  null, and \<open>DC_STATUS_SUCCESS\<close> for every other handle, whatever the state of the
  socket and whatever the queue selector.
\<close>

theorem flush_status:
  "qt_serial_flush h None queue = Return DC_STATUS_INVALIDARGS \<and>
   (serial_blocks h a = Some b \<longrightarrow>
      qt_serial_flush h (Some a) queue =
        Return (if socket (contents b) = None then DC_STATUS_INVALIDARGS
                else DC_STATUS_SUCCESS))"
  by (auto simp: qt_serial_flush_def split: option.splits)

text \<open>Witness for C3: a connected handle.\<close>

theorem flush_status_witness:
  "qt_serial_flush (connected_heap [] []) (Some 4096) 0 = Return DC_STATUS_SUCCESS"
  using flush_status [of "connected_heap [] []" 0 4096
      "Live \<lparr>context_ptr = None, socket = Some 4097, timeout = - 1\<rparr>"]
  by (simp add: connected_heap_def)

text \<open>Counterexample to C3 as stated: the null handle is refused.\<close>

theorem flush_null_handle_invalidargs:
  "qt_serial_flush (initial_heap 0) None 0 = Return DC_STATUS_INVALIDARGS \<and>
   qt_serial_flush (initial_heap 0) None 0 \<noteq> Return DC_STATUS_SUCCESS"
  by (simp add: qt_serial_flush_def status_values)

text \<open>
  Claim C8, as amended.  \<open>qt_serial_close\<close> returns \<open>DC_STATUS_SUCCESS\<close> whenever it
  returns.  For a null handle and for a handle whose socket pointer is null it does
  nothing.  For a live handle with a live socket it calls \<open>close()\<close> on the socket,
  deletes the socket and frees the handle.
\<close>

theorem close_cases:
  "qt_serial_close h None = Return (DC_STATUS_SUCCESS, h, []) \<and>
   (serial_blocks h a = Some b \<and> socket (contents b) = None \<longrightarrow>
      qt_serial_close h (Some a) = Return (DC_STATUS_SUCCESS, h, [])) \<and>
   (serial_blocks h a = Some (Live d) \<and> socket d = Some q \<and> socket_objs h q = Some (Live s) \<longrightarrow>
      qt_serial_close h (Some a) =
        Return (DC_STATUS_SUCCESS,
                h\<lparr>socket_objs := (socket_objs h)(q \<mapsto> Released s),
                  serial_blocks := (serial_blocks h)(a \<mapsto> Released d)\<rparr>,
                [SocketClose q, Delete q, Free a])) \<and>
   (qt_serial_close h device = Return (r, h', calls) \<longrightarrow> r = DC_STATUS_SUCCESS)"
  by (auto simp: qt_serial_close_def socket_view_def split: option.splits sum.splits block.splits)

text \<open>Witness for C8: closing a connected handle, and closing the null handle.\<close>

theorem close_cases_witness:
  "qt_serial_close (connected_heap [] []) (Some 4096) =
     Return (DC_STATUS_SUCCESS,
       (connected_heap [] [])\<lparr>
         socket_objs := [4097 \<mapsto> Released \<lparr>state = ConnectedState, error = NoSocketError,
                          socketDescriptor = 7, incoming = [], outgoing = []\<rparr>],
         serial_blocks := [4096 \<mapsto> Released \<lparr>context_ptr = None, socket = Some 4097,
                          timeout = - 1\<rparr>]\<rparr>,
       [SocketClose 4097, Delete 4097, Free 4096]) \<and>
   qt_serial_close (initial_heap 0) None = Return (DC_STATUS_SUCCESS, initial_heap 0, [])"
  using close_cases [of "connected_heap [] []" 4096
      "Live \<lparr>context_ptr = None, socket = Some 4097, timeout = - 1\<rparr>"
      "\<lparr>context_ptr = None, socket = Some 4097, timeout = - 1\<rparr>" 4097
      "\<lparr>state = ConnectedState, error = NoSocketError, socketDescriptor = 7,
        incoming = [], outgoing = []\<rparr>" None DC_STATUS_SUCCESS "initial_heap 0" "[]"]
    close_cases [of "initial_heap 0"]
  by (simp add: connected_heap_def)

text \<open>
  Counterexample to C8 as stated.  The first call frees the handle and deletes the
  socket; the second call on the same pointer reads the freed block, finds the old
  socket pointer there and calls \<open>close()\<close> on the deleted socket.
\<close>

theorem close_twice_faults:
  "close_twice (connected_heap [] []) (Some 4096) = Fault UseAfterFree"
  by (simp add: close_twice_def qt_serial_close_def connected_heap_def socket_view_def)

section \<open>Reading and writing\<close>

text \<open>
  Claim C10.  On a handle that is not null and whose socket pointer is not null,
  \<open>qt_serial_read\<close> and \<open>qt_serial_write\<close> with size 0 return 0, make no call on the
  socket and change nothing.
\<close>

theorem zero_size_transfer:
  assumes "serial_blocks h a = Some b" and "socket (contents b) = Some q"
  shows "qt_serial_read h (Some a) data 0 = Return (0, data, h, []) \<and>
         qt_serial_write h (Some a) data 0 = Return (0, h, [])"
proof
  show "qt_serial_read h (Some a) data 0 = Return (0, data, h, [])"
  proof (cases "socket_view h q")
    case (Inl f)
    then have "set_incoming h q [] = h"
      by (auto simp: socket_view_def set_incoming_def split: option.splits block.splits)
    with Inl assms show ?thesis by (simp add: qt_serial_read_def)
  next
    case (Inr s)
    then have live: "socket_objs h q = Some (Live s)"
      by (auto simp: socket_view_def split: option.splits block.splits)
    then have "set_incoming h q (incoming s) = h"
      by (simp add: set_incoming_def map_upd_triv)
    with Inr assms show ?thesis by (simp add: qt_serial_read_def read_loop_done)
  qed
  show "qt_serial_write h (Some a) data 0 = Return (0, h, [])"
  proof (cases "socket_view h q")
    case (Inl f)
    then have "set_outgoing h q [] = h"
      by (auto simp: socket_view_def set_outgoing_def split: option.splits block.splits)
    with Inl assms show ?thesis by (simp add: qt_serial_write_def)
  next
    case (Inr s)
    then have live: "socket_objs h q = Some (Live s)"
      by (auto simp: socket_view_def split: option.splits block.splits)
    then have "set_outgoing h q (outgoing s) = h"
      by (simp add: set_outgoing_def map_upd_triv)
    with Inr assms show ?thesis by (simp add: qt_serial_write_def write_loop_done)
  qed
qed

text \<open>Witness for C10: a connected handle with data waiting in both directions.\<close>

theorem zero_size_transfer_witness:
  "qt_serial_read (connected_heap [Delivered [1]] []) (Some 4096) [9, 9] 0 =
     Return (0, [9, 9], connected_heap [Delivered [1]] [], []) \<and>
   qt_serial_write (connected_heap [] [Accepted 1]) (Some 4096) [9, 9] 0 =
     Return (0, connected_heap [] [Accepted 1], [])"
  using zero_size_transfer [OF connected_heap_handle(1), of 4097 "[Delivered [1]]" "[]" "[9, 9]"]
    zero_size_transfer [OF connected_heap_handle(1), of 4097 "[]" "[Accepted 1]" "[9, 9]"]
  by simp

text \<open>
  Claim C5, as amended.  On a connected handle, let a transfer attempt made before
  the requested size is reached fail with an \<open>errno\<close> other than \<open>EINTR\<close> and
  \<open>EAGAIN\<close>, every earlier attempt of the call having transferred fewer than \<open>2^31\<close>
  bytes or failed with \<open>EINTR\<close> or \<open>EAGAIN\<close>.  Then \<open>qt_serial_read\<close> and
  \<open>qt_serial_write\<close> return the integer \<open>-1\<close> at once: no further call is made on the
  socket, and the number of bytes transferred before the failure is not reported.
  The integer \<open>-1\<close> is not \<open>DC_STATUS_IO\<close>.
\<close>

theorem transfer_hard_failure_returns_minus_one:
  assumes "serial_blocks h a = Some b" and "socket (contents b) = Some q"
    and "socket_objs h q = Some (Live s)"
  shows "(incoming s = pre @ ReadError e # rest \<and> read_progress pre \<and>
          e \<noteq> EINTR \<and> e \<noteq> EAGAIN \<and>
          length (delivered pre) < unat sz \<and> length (delivered pre) \<le> length data \<longrightarrow>
          qt_serial_read h (Some a) data sz =
            Return (- 1, delivered pre @ drop (length (delivered pre)) data,
                    (set_incoming h q rest)\<lparr>errno := e\<rparr>,
                    expected_read_calls (int_cast (timeout (contents b))) sz 0
                      (pre @ [ReadError e]))) \<and>
         (outgoing s = wpre @ WriteError e' # wrest \<and> write_progress wpre \<and>
          e' \<noteq> EINTR \<and> e' \<noteq> EAGAIN \<and> accepted wpre < unat wsz \<longrightarrow>
          qt_serial_write h (Some a) wdata wsz =
            Return (- 1, (set_outgoing h q wrest)\<lparr>errno := e'\<rparr>,
                    expected_write_calls (int_cast (timeout (contents b))) wsz 0
                      (wpre @ [WriteError e']))) \<and>
         - 1 \<noteq> DC_STATUS_IO"
  using assms
  by (simp add: qt_serial_read_live qt_serial_write_live read_loop_hard_failure
      write_loop_hard_failure DC_STATUS_IO_def)

text \<open>
  Witness for C5: two bytes are transferred, then the transfer fails with \<open>errno\<close> 5.
  The next result of the transport is left unconsumed.
\<close>

theorem transfer_hard_failure_returns_minus_one_witness:
  "qt_serial_read (connected_heap [Delivered [1, 2], ReadError (EOTHER 5), Delivered [3]]
        [Accepted 2, WriteError (EOTHER 5), Accepted 1])
      (Some 4096) [0, 0, 0, 0] 4 =
     Return (- 1, [1, 2, 0, 0],
       (connected_heap [Delivered [3]] [Accepted 2, WriteError (EOTHER 5), Accepted 1])
         \<lparr>errno := EOTHER 5\<rparr>,
       [WaitForReadyRead (- 1), SocketRead 0 4, WaitForReadyRead (- 1), SocketRead 2 2]) \<and>
   qt_serial_write (connected_heap [Delivered [1, 2], ReadError (EOTHER 5), Delivered [3]]
        [Accepted 2, WriteError (EOTHER 5), Accepted 1])
      (Some 4096) [1, 2, 3, 4] 4 =
     Return (- 1,
       (connected_heap [Delivered [1, 2], ReadError (EOTHER 5), Delivered [3]] [Accepted 1])
         \<lparr>errno := EOTHER 5\<rparr>,
       [WaitForBytesWritten (- 1), SocketWrite 0 4, WaitForBytesWritten (- 1), SocketWrite 2 2])"
  using transfer_hard_failure_returns_minus_one
      [where h = "connected_heap [Delivered [1, 2], ReadError (EOTHER 5), Delivered [3]]
          [Accepted 2, WriteError (EOTHER 5), Accepted 1]"
        and a = 4096 and q = 4097
        and b = "Live \<lparr>context_ptr = None, socket = Some 4097, timeout = - 1\<rparr>"
        and s = "\<lparr>state = ConnectedState, error = NoSocketError, socketDescriptor = 7,
          incoming = [Delivered [1, 2], ReadError (EOTHER 5), Delivered [3]],
          outgoing = [Accepted 2, WriteError (EOTHER 5), Accepted 1]\<rparr>"
        and pre = "[Delivered [1, 2]]" and e = "EOTHER 5" and rest = "[Delivered [3]]"
        and sz = 4 and data = "[0, 0, 0, 0]"
        and wpre = "[Accepted 2]" and e' = "EOTHER 5" and wrest = "[Accepted 1]"
        and wsz = 4 and wdata = "[1, 2, 3, 4]"]
  by (simp add: connected_heap_handle connected_heap_set_incoming connected_heap_set_outgoing
      int_cast_minus_one)

text \<open>
  Counterexample to C5 as stated.  After a failure with \<open>errno\<close> 5 both functions
  return the integer \<open>-1\<close>, which is the value of \<open>DC_STATUS_UNSUPPORTED\<close>; neither
  returns \<open>DC_STATUS_IO\<close>, the value that \<open>qt_serial_open\<close> uses for an I/O error.
\<close>

theorem transfer_hard_failure_not_status_io:
  "map_outcome fst (qt_serial_read (connected_heap [Delivered [1, 2], ReadError (EOTHER 5)] [])
      (Some 4096) [0, 0, 0, 0] 4) = Return (- 1) \<and>
   map_outcome fst (qt_serial_read (connected_heap [Delivered [1, 2], ReadError (EOTHER 5)] [])
      (Some 4096) [0, 0, 0, 0] 4) \<noteq> Return DC_STATUS_IO \<and>
   map_outcome fst (qt_serial_write (connected_heap [] [Accepted 2, WriteError (EOTHER 5)])
      (Some 4096) [1, 2, 3, 4] 4) = Return (- 1) \<and>
   map_outcome fst (qt_serial_write (connected_heap [] [Accepted 2, WriteError (EOTHER 5)])
      (Some 4096) [1, 2, 3, 4] 4) \<noteq> Return DC_STATUS_IO \<and>
   DC_STATUS_UNSUPPORTED = - 1"
proof -
  have c: "int_cast 2 = 2" using int_cast_count [of 2] by simp
  show ?thesis
    by (simp add: qt_serial_read_def qt_serial_write_def connected_heap_def socket_view_def
        status_values c Let_def)
qed

text \<open>
  Claim C6, as amended.  On a connected handle, for a requested size \<open>N\<close> below
  \<open>2^31\<close>: when the transport delivers \<open>N\<close> bytes in all, in any number of
  deliveries with deliveries of no bytes and transient failures in between,
  \<open>qt_serial_read\<close> returns \<open>N\<close> with the delivered bytes at the start of the array in
  the order of delivery.  Before every attempt it waits for readability, after every
  delivery of no bytes it waits for the \<open>readyRead\<close> signal, and after a transient
  failure it repeats the attempt at the same offset.
\<close>

theorem read_accumulates:
  assumes "serial_blocks h a = Some b" and "socket (contents b) = Some q"
    and "socket_objs h q = Some (Live s)"
    and "incoming s = pre @ Delivered bs # rest" and "transient_errors pre" and "bs \<noteq> []"
    and "length (delivered pre) + length bs = unat sz"
    and "unat sz \<le> length data"
    and "unat sz < 2147483648"
  shows "qt_serial_read h (Some a) data sz =
           Return (int (unat sz), delivered pre @ bs @ drop (unat sz) data,
                   (set_incoming h q rest)\<lparr>errno := errno_after (errno h) pre\<rparr>,
                   expected_read_calls (int_cast (timeout (contents b))) sz 0
                     (pre @ [Delivered bs]))"
proof -
  have rp: "read_progress pre"
    by (rule read_progress_total) (use assms in simp_all)
  have nb: "length bs < 2147483648" using assms by simp
  show ?thesis
    using assms rp nb
    by (simp add: qt_serial_read_live read_loop_completes sint_small)
qed

text \<open>
  Witness for C6: five bytes arrive in three deliveries of 2, 1 and 2 bytes, with a
  delivery of no bytes and an interrupted call in between.
\<close>

theorem read_accumulates_witness:
  "qt_serial_read
      (connected_heap [Delivered [1, 2], Delivered [], ReadError EINTR, Delivered [3],
                       Delivered [4, 5], Delivered [9]] [])
      (Some 4096) [0, 0, 0, 0, 0, 0, 0] 5 =
   Return (5, [1, 2, 3, 4, 5, 0, 0], (connected_heap [Delivered [9]] [])\<lparr>errno := EINTR\<rparr>,
     [WaitForReadyRead (- 1), SocketRead 0 5,
      WaitForReadyRead (- 1), SocketRead 2 3, ReadyReadLoopExec,
      WaitForReadyRead (- 1), SocketRead 2 3,
      WaitForReadyRead (- 1), SocketRead 2 3,
      WaitForReadyRead (- 1), SocketRead 3 2])"
  using read_accumulates
      [where h = "connected_heap [Delivered [1, 2], Delivered [], ReadError EINTR,
          Delivered [3], Delivered [4, 5], Delivered [9]] []"
        and a = 4096 and q = 4097
        and b = "Live \<lparr>context_ptr = None, socket = Some 4097, timeout = - 1\<rparr>"
        and s = "\<lparr>state = ConnectedState, error = NoSocketError, socketDescriptor = 7,
          incoming = [Delivered [1, 2], Delivered [], ReadError EINTR, Delivered [3],
            Delivered [4, 5], Delivered [9]], outgoing = []\<rparr>"
        and pre = "[Delivered [1, 2], Delivered [], ReadError EINTR, Delivered [3]]"
        and bs = "[4, 5]" and rest = "[Delivered [9]]" and sz = 5
        and data = "[0, 0, 0, 0, 0, 0, 0]"]
  by (simp add: connected_heap_handle connected_heap_set_incoming int_cast_minus_one)

text \<open>
  Counterexample to C6 as stated.  The requested size is \<open>2^31\<close> and the transport
  delivers \<open>2^31 - 1\<close> bytes and then one byte.  All \<open>2^31\<close> bytes are in place, and
  the \<open>int\<close> that the function returns is \<open>- 2^31\<close>.
\<close>

theorem read_count_overflows_int:
  "map_outcome fst (qt_serial_read
      (connected_heap [Delivered (replicate 2147483647 0), Delivered [0]] [])
      (Some 4096) (replicate 2147483648 0) 2147483648) = Return (- 2147483648)"
proof -
  have "read_loop (- 1) 2147483648 0 (replicate 2147483648 0) (EOTHER 0)
          (Inr ([Delivered (replicate 2147483647 0)] @ Delivered [0] # [])) [] =
        Return (sint (2147483648 :: uint),
          delivered [Delivered (replicate 2147483647 0)] @ [0] @
            drop (unat (2147483648 :: uint)) (replicate 2147483648 0),
          errno_after (EOTHER 0) [Delivered (replicate 2147483647 0)], [],
          expected_read_calls (int_cast (- 1)) 2147483648 0
            ([Delivered (replicate 2147483647 0)] @ [Delivered [0]]))"
    by (rule read_loop_completes) simp_all
  then show ?thesis
    by (simp add: qt_serial_read_live [OF connected_heap_handle(1) _ connected_heap_handle(2)]
        connected_heap_handle(3))
qed

text \<open>
  Claim C7, as amended.  On a connected handle, when \<open>k\<close> bytes have been written,
  \<open>k\<close> is below the requested size and below \<open>2^31\<close>, and the next attempt
  transfers no bytes and reports no error, \<open>qt_serial_write\<close> returns \<open>k\<close> and makes
  no further attempt.
\<close>

theorem write_short_write:
  assumes "serial_blocks h a = Some b" and "socket (contents b) = Some q"
    and "socket_objs h q = Some (Live s)"
    and "outgoing s = pre @ Accepted 0 # rest" and "write_steady pre"
    and "accepted pre < unat sz"
    and "accepted pre < 2147483648"
  shows "qt_serial_write h (Some a) data sz =
           Return (int (accepted pre),
                   (set_outgoing h q rest)\<lparr>errno := errno_after_write (errno h) pre\<rparr>,
                   expected_write_calls (int_cast (timeout (contents b))) sz 0
                     (pre @ [Accepted 0]))"
proof -
  have wp: "write_progress pre"
    by (rule write_progress_total) (use assms in simp_all)
  show ?thesis
    using assms wp
    by (simp add: qt_serial_write_live write_loop_short sint_of_nat_small)
qed

text \<open>
  Witness for C7: three of five bytes are accepted (with one \<open>EAGAIN\<close> in between),
  then the socket accepts nothing.
\<close>

theorem write_short_write_witness:
  "qt_serial_write
      (connected_heap [] [Accepted 2, WriteError EAGAIN, Accepted 1, Accepted 0, Accepted 2])
      (Some 4096) [1, 2, 3, 4, 5] 5 =
   Return (3, (connected_heap [] [Accepted 2])\<lparr>errno := EAGAIN\<rparr>,
     [WaitForBytesWritten (- 1), SocketWrite 0 5,
      WaitForBytesWritten (- 1), SocketWrite 2 3,
      WaitForBytesWritten (- 1), SocketWrite 2 3,
      WaitForBytesWritten (- 1), SocketWrite 3 2])"
  using write_short_write
      [where h = "connected_heap []
          [Accepted 2, WriteError EAGAIN, Accepted 1, Accepted 0, Accepted 2]"
        and a = 4096 and q = 4097
        and b = "Live \<lparr>context_ptr = None, socket = Some 4097, timeout = - 1\<rparr>"
        and s = "\<lparr>state = ConnectedState, error = NoSocketError, socketDescriptor = 7,
          incoming = [],
          outgoing = [Accepted 2, WriteError EAGAIN, Accepted 1, Accepted 0, Accepted 2]\<rparr>"
        and pre = "[Accepted 2, WriteError EAGAIN, Accepted 1]"
        and rest = "[Accepted 2]" and sz = 5 and data = "[1, 2, 3, 4, 5]"]
  by (simp add: connected_heap_handle connected_heap_set_outgoing int_cast_minus_one)

text \<open>
  Counterexample to C7 as stated.  Of \<open>2^32 - 1\<close> requested bytes, \<open>2^31\<close> are
  accepted in two transfers and the next attempt transfers nothing: \<open>k = 2^31\<close> is
  below the size, and the \<open>int\<close> that the function returns is \<open>- 2^31\<close>.
\<close>

theorem write_count_overflows_int:
  "map_outcome fst (qt_serial_write
      (connected_heap [] [Accepted 2147483647, Accepted 1, Accepted 0, Accepted 5])
      (Some 4096) (replicate 4294967295 0) 4294967295) = Return (- 2147483648)"
proof -
  have "write_loop (- 1) 4294967295 0 (EOTHER 0)
          (Inr ([Accepted 2147483647, Accepted 1] @ Accepted 0 # [Accepted 5])) [] =
        Return (sint (of_nat (accepted [Accepted 2147483647, Accepted 1]) :: uint),
          errno_after_write (EOTHER 0) [Accepted 2147483647, Accepted 1], [Accepted 5],
          expected_write_calls (int_cast (- 1)) 4294967295 0
            ([Accepted 2147483647, Accepted 1] @ [Accepted 0]))"
    by (rule write_loop_short) simp_all
  then show ?thesis
    by (simp add: qt_serial_write_live [OF connected_heap_handle(1) _ connected_heap_handle(2)]
        connected_heap_handle(3))
qed

end
